theory Spec2Isabelle
  imports Main
begin

section \<open>Python dictionaries\<close>

text \<open>
  A Python dict (and a JavaScript object literal) is an association list in insertion
  order; its keys are pairwise distinct. \<open>dict_get d k dflt\<close> is \<^verbatim>\<open>d.get(k, dflt)\<close>,
  \<open>dict_contains d k\<close> is \<^verbatim>\<open>k in d\<close>.
\<close>

type_synonym ('k, 'v) dict = "('k \<times> 'v) list"

definition dict_contains :: "('k, 'v) dict \<Rightarrow> 'k \<Rightarrow> bool" where
  "dict_contains d k = (case map_of d k of None \<Rightarrow> False | Some v \<Rightarrow> True)"

definition dict_get :: "('k, 'v) dict \<Rightarrow> 'k \<Rightarrow> 'v \<Rightarrow> 'v" where
  "dict_get d k dflt = (case map_of d k of None \<Rightarrow> dflt | Some v \<Rightarrow> v)"

section \<open>Backend type validation service\<close>

text \<open>
  \<^verbatim>\<open>backend/app/services/type_validation_service.py\<close>, as given in
  \<^verbatim>\<open>architecture/type_based_node_linking.md\<close>.
\<close>

datatype TypeCategory = BASIC | COLLECTION | SPECIAL | CUSTOM

text \<open>The field \<open>python_type\<close> is a class, a tuple of classes or a string in the
  source; no operation reads it, and it is kept as the text written there.\<close>

record TypeInfo =
  name :: string
  category :: TypeCategory
  python_type :: string
  compatible_types :: "string list"
  description :: string

definition mk_TypeInfo ::
  "string \<Rightarrow> TypeCategory \<Rightarrow> string \<Rightarrow> string list \<Rightarrow> string \<Rightarrow> TypeInfo" where
  "mk_TypeInfo n c p cs d =
     \<lparr>name = n, category = c, python_type = p, compatible_types = cs, description = d\<rparr>"

definition initialize_type_registry :: "(string, TypeInfo) dict" where
  "initialize_type_registry =
    [(''string'', mk_TypeInfo ''string'' BASIC ''str'' [''string'', ''any''] ''Text string''),
     (''number'', mk_TypeInfo ''number'' BASIC ''(int, float)''
        [''number'', ''integer'', ''float'', ''any''] ''Numeric value''),
     (''integer'', mk_TypeInfo ''integer'' BASIC ''int''
        [''integer'', ''number'', ''any''] ''Integer value''),
     (''float'', mk_TypeInfo ''float'' BASIC ''float''
        [''float'', ''number'', ''any''] ''Floating point value''),
     (''boolean'', mk_TypeInfo ''boolean'' BASIC ''bool'' [''boolean'', ''any''] ''Boolean value''),
     (''null'', mk_TypeInfo ''null'' BASIC ''type(None)'' [''null'', ''any''] ''Null value''),
     (''list'', mk_TypeInfo ''list'' COLLECTION ''list''
        [''list'', ''array'', ''any''] ''List of items''),
     (''array'', mk_TypeInfo ''array'' COLLECTION ''list''
        [''array'', ''list'', ''any''] ''Array of items''),
     (''tuple'', mk_TypeInfo ''tuple'' COLLECTION ''tuple''
        [''tuple'', ''list'', ''array'', ''any''] ''Tuple of items''),
     (''set'', mk_TypeInfo ''set'' COLLECTION ''set''
        [''set'', ''list'', ''array'', ''any''] ''Set of items''),
     (''dict'', mk_TypeInfo ''dict'' COLLECTION ''dict''
        [''dict'', ''object'', ''any''] ''Dictionary''),
     (''object'', mk_TypeInfo ''object'' COLLECTION ''dict''
        [''object'', ''dict'', ''any''] ''Object''),
     (''file'', mk_TypeInfo ''file'' SPECIAL ''file'' [''file'', ''any''] ''File object''),
     (''image'', mk_TypeInfo ''image'' SPECIAL ''image''
        [''image'', ''file'', ''any''] ''Image file''),
     (''audio'', mk_TypeInfo ''audio'' SPECIAL ''audio''
        [''audio'', ''file'', ''any''] ''Audio file''),
     (''video'', mk_TypeInfo ''video'' SPECIAL ''video''
        [''video'', ''file'', ''any''] ''Video file''),
     (''dataframe'', mk_TypeInfo ''dataframe'' SPECIAL ''pandas.DataFrame''
        [''dataframe'', ''object'', ''any''] ''Pandas DataFrame''),
     (''tensor'', mk_TypeInfo ''tensor'' SPECIAL ''torch.Tensor''
        [''tensor'', ''numpy_array'', ''any''] ''PyTorch Tensor''),
     (''numpy_array'', mk_TypeInfo ''numpy_array'' SPECIAL ''numpy.ndarray''
        [''numpy_array'', ''tensor'', ''any''] ''NumPy Array''),
     (''any'', mk_TypeInfo ''any'' BASIC ''object'' [''any''] ''Any type'')]"

text \<open>\<^verbatim>\<open>_build_compatibility_matrix\<close>: one row per registry entry, in registry order.\<close>

fun build_compatibility_matrix :: "(string, TypeInfo) dict \<Rightarrow> (string, string list) dict" where
  "build_compatibility_matrix [] = []"
| "build_compatibility_matrix ((type_name, type_info) # rest) =
     (type_name, compatible_types type_info) # build_compatibility_matrix rest"

text \<open>The state of a \<^verbatim>\<open>TypeValidationService\<close> object, and its constructor.\<close>

record TypeValidationService =
  type_registry :: "(string, TypeInfo) dict"
  type_compatibility :: "(string, string list) dict"

definition new_TypeValidationService :: TypeValidationService where
  "new_TypeValidationService =
     \<lparr>type_registry = initialize_type_registry,
      type_compatibility = build_compatibility_matrix initialize_type_registry\<rparr>"

definition are_types_compatible :: "TypeValidationService \<Rightarrow> string \<Rightarrow> string \<Rightarrow> bool" where
  "are_types_compatible self output_type input_type =
     (if \<not> dict_contains (type_registry self) output_type
         \<or> \<not> dict_contains (type_registry self) input_type then False
      else if output_type = ''any'' \<or> input_type = ''any'' then True
      else input_type \<in> set (dict_get (type_compatibility self) output_type []))"

definition get_compatible_types :: "TypeValidationService \<Rightarrow> string \<Rightarrow> string list" where
  "get_compatible_types self output_type =
     (if \<not> dict_contains (type_registry self) output_type then []
      else dict_get (type_compatibility self) output_type [])"

definition validate_type_annotation :: "TypeValidationService \<Rightarrow> string \<Rightarrow> bool" where
  "validate_type_annotation self annotation = dict_contains (type_registry self) annotation"

section \<open>Frontend type validation service\<close>

text \<open>
  \<^verbatim>\<open>frontend/src/services/TypeValidationService.ts\<close>. The table is an object literal,
  so \<^verbatim>\<open>this.typeCompatibility[outputType]\<close> finds an own property or, failing that, a
  property inherited from \<^verbatim>\<open>Object.prototype\<close>. An inherited property is a function
  (or, for \<^verbatim>\<open>__proto__\<close>, the prototype object): it is truthy and has no
  \<^verbatim>\<open>includes\<close> method, so the call throws a TypeError.
\<close>

datatype js_error = JsTypeError

definition typeCompatibility :: "(string, string list) dict" where
  "typeCompatibility =
    [(''string'', [''string'', ''any'']),
     (''number'', [''number'', ''integer'', ''float'', ''any'']),
     (''integer'', [''integer'', ''number'', ''any'']),
     (''float'', [''float'', ''number'', ''any'']),
     (''boolean'', [''boolean'', ''any'']),
     (''list'', [''list'', ''array'', ''any'']),
     (''dict'', [''dict'', ''object'', ''any'']),
     (''file'', [''file'', ''any'']),
     (''dataframe'', [''dataframe'', ''object'', ''any'']),
     (''tensor'', [''tensor'', ''numpy_array'', ''any'']),
     (''numpy_array'', [''numpy_array'', ''tensor'', ''any''])]"

definition Object_prototype_properties :: "string list" where
  "Object_prototype_properties =
    [''constructor'', ''__defineGetter__'', ''__defineSetter__'', ''hasOwnProperty'',
     ''__lookupGetter__'', ''__lookupSetter__'', ''isPrototypeOf'', ''propertyIsEnumerable'',
     ''toString'', ''valueOf'', ''__proto__'', ''toLocaleString'']"

definition areTypesCompatible :: "string \<Rightarrow> string \<Rightarrow> js_error + bool" where
  "areTypesCompatible outputType inputType =
     (if outputType = ''any'' \<or> inputType = ''any'' then Inr True
      else (case map_of typeCompatibility outputType of
              Some compatibleTypes \<Rightarrow> Inr (inputType \<in> set compatibleTypes)
            | None \<Rightarrow>
                if outputType \<in> set Object_prototype_properties then Inl JsTypeError
                else Inr (inputType \<in> set ([] :: string list))))"

text \<open>\<^verbatim>\<open>getCompatibleTypes\<close> returns what the same lookup finds: a row of the table, the
  empty array, or the inherited property itself.\<close>

datatype js_property = OwnArray "string list" | InheritedProperty string

definition getCompatibleTypes :: "string \<Rightarrow> js_property" where
  "getCompatibleTypes outputType =
     (case map_of typeCompatibility outputType of
        Some compatibleTypes \<Rightarrow> OwnArray compatibleTypes
      | None \<Rightarrow>
          if outputType \<in> set Object_prototype_properties then InheritedProperty outputType
          else OwnArray [])"


section \<open>Node connection validation\<close>

text \<open>
  A port is a dict with the keys \<^verbatim>\<open>name\<close> and \<^verbatim>\<open>type\<close>; a node is a dict with the key
  \<^verbatim>\<open>id\<close> and the optional keys \<^verbatim>\<open>outputs\<close> and \<^verbatim>\<open>inputs\<close>, read with
  \<^verbatim>\<open>.get(key, [])\<close>.
\<close>

record port =
  port_name :: string
  port_type :: string

record node =
  node_id :: string
  outputs :: "port list option"
  inputs :: "port list option"

definition get_list :: "'a list option \<Rightarrow> 'a list" where
  "get_list v = (case v of None \<Rightarrow> [] | Some xs \<Rightarrow> xs)"

text \<open>The entries of \<^verbatim>\<open>valid_connections\<close> and \<^verbatim>\<open>invalid_connections\<close>; only an invalid
  entry has the key \<^verbatim>\<open>suggestions\<close>.\<close>

record connection_info =
  source_output :: port
  target_input :: port
  compatible :: bool
  reason :: string
  suggestions :: "string list option"

record node_connection_validation =
  valid :: bool
  valid_connections :: "connection_info list"
  invalid_connections :: "connection_info list"
  can_connect :: bool

text \<open>The body of the two nested loops of \<^verbatim>\<open>validate_node_connection\<close>: one port pair,
  appended to one of the two lists.\<close>

definition check_port_pair ::
  "TypeValidationService \<Rightarrow> port \<Rightarrow> port \<Rightarrow>
   connection_info list \<times> connection_info list \<Rightarrow> connection_info list \<times> connection_info list" where
  "check_port_pair self output input_port acc =
     (let is_compatible = are_types_compatible self (port_type output) (port_type input_port);
          connection_info = \<lparr>source_output = output, target_input = input_port,
                             compatible = is_compatible, reason = [], suggestions = None\<rparr>
      in if is_compatible
         then (fst acc @ [connection_info\<lparr>reason := ''Types are compatible''\<rparr>], snd acc)
         else (fst acc,
               snd acc @ [connection_info
                 \<lparr>reason := ''Cannot connect '' @ port_type output @ '' to '' @ port_type input_port,
                  suggestions := Some (get_compatible_types self (port_type output))\<rparr>]))"

fun for_target_inputs ::
  "TypeValidationService \<Rightarrow> port \<Rightarrow> port list \<Rightarrow>
   connection_info list \<times> connection_info list \<Rightarrow> connection_info list \<times> connection_info list" where
  "for_target_inputs self output [] acc = acc"
| "for_target_inputs self output (input_port # rest) acc =
     for_target_inputs self output rest (check_port_pair self output input_port acc)"

fun for_source_outputs ::
  "TypeValidationService \<Rightarrow> port list \<Rightarrow> port list \<Rightarrow>
   connection_info list \<times> connection_info list \<Rightarrow> connection_info list \<times> connection_info list" where
  "for_source_outputs self [] target_inputs acc = acc"
| "for_source_outputs self (output # rest) target_inputs acc =
     for_source_outputs self rest target_inputs (for_target_inputs self output target_inputs acc)"

definition validate_node_connection ::
  "TypeValidationService \<Rightarrow> node \<Rightarrow> node \<Rightarrow> node_connection_validation" where
  "validate_node_connection self source_node target_node =
     (let source_outputs = get_list (outputs source_node);
          target_inputs = get_list (inputs target_node);
          lists = for_source_outputs self source_outputs target_inputs ([], [])
      in \<lparr>valid = length (fst lists) > 0,
          valid_connections = fst lists,
          invalid_connections = snd lists,
          can_connect = length (fst lists) > 0\<rparr>)"

section \<open>Workflow validation service\<close>

text \<open>
  \<^verbatim>\<open>backend/app/services/workflow_validation_service.py\<close>. A connection is a dict with the
  keys \<^verbatim>\<open>source\<close> and \<^verbatim>\<open>target\<close>, each a dict of which the code reads the key
  \<^verbatim>\<open>nodeId\<close> and nothing else. The port a connection end names (the source port and the
  target port of a connection in the data model, \<^verbatim>\<open>sourceOutput\<close> and \<^verbatim>\<open>targetInput\<close> in
  the frontend component) is kept as \<open>portName\<close>; the validation never reads it.
\<close>

record endpoint =
  nodeId :: string
  portName :: string

record connection =
  source :: endpoint
  target :: endpoint

record workflow_data =
  nodes :: "node list option"
  connections :: "connection list option"

text \<open>An entry of \<^verbatim>\<open>errors\<close>, with the keys \<^verbatim>\<open>type\<close>, \<^verbatim>\<open>message\<close> and, for
  incompatible types, \<^verbatim>\<open>details\<close>.\<close>

record validation_error =
  error_type :: string
  message :: string
  details :: "connection_info list option"

record connection_validation =
  connection_of :: connection
  validation :: node_connection_validation

text \<open>The dict \<^verbatim>\<open>validation_results\<close>; its key \<^verbatim>\<open>valid\<close> is the field
  \<open>workflow_valid\<close> here (the key \<^verbatim>\<open>connection\<close> of its entries is \<open>connection_of\<close>), and
  nothing is ever appended to \<^verbatim>\<open>warnings\<close>.\<close>

record validation_results =
  workflow_valid :: bool
  errors :: "validation_error list"
  warnings :: "string list"
  connection_validations :: "connection_validation list"

record WorkflowValidationService =
  type_validator :: TypeValidationService

definition new_WorkflowValidationService :: WorkflowValidationService where
  "new_WorkflowValidationService = \<lparr>type_validator = new_TypeValidationService\<rparr>"

fun find_node_by_id :: "node list \<Rightarrow> string \<Rightarrow> node option" where
  "find_node_by_id [] wanted = None"
| "find_node_by_id (n # rest) wanted =
     (if node_id n = wanted then Some n else find_node_by_id rest wanted)"

definition missing_node_error :: "string \<Rightarrow> string \<Rightarrow> validation_error" where
  "missing_node_error source_node_id target_node_id =
     \<lparr>error_type = ''missing_node'',
      message = ''Node not found for connection '' @ source_node_id @ '' -> '' @ target_node_id,
      details = None\<rparr>"

definition incompatible_types_error ::
  "string \<Rightarrow> string \<Rightarrow> connection_info list \<Rightarrow> validation_error" where
  "incompatible_types_error source_node_id target_node_id invalid =
     \<lparr>error_type = ''incompatible_types'',
      message = ''Incompatible types in connection '' @ source_node_id @ '' -> '' @ target_node_id,
      details = Some invalid\<rparr>"

text \<open>The body of the loop over the connections.\<close>

definition validate_one_connection ::
  "WorkflowValidationService \<Rightarrow> node list \<Rightarrow> validation_results \<Rightarrow> connection \<Rightarrow>
   validation_results" where
  "validate_one_connection self nodes_list validation_results conn =
     (let source_node_id = nodeId (source conn);
          target_node_id = nodeId (target conn)
      in case (find_node_by_id nodes_list source_node_id,
               find_node_by_id nodes_list target_node_id) of
           (Some source_node, Some target_node) \<Rightarrow>
             (let connection_validation =
                    validate_node_connection (type_validator self) source_node target_node;
                  results1 = validation_results
                    \<lparr>connection_validations := connection_validations validation_results @
                       [\<lparr>connection_of = conn, validation = connection_validation\<rparr>]\<rparr>
              in if \<not> can_connect connection_validation
                 then results1
                   \<lparr>errors := errors results1 @
                      [incompatible_types_error source_node_id target_node_id
                         (invalid_connections connection_validation)],
                    workflow_valid := False\<rparr>
                 else results1)
         | _ \<Rightarrow>
             validation_results
               \<lparr>errors := errors validation_results @
                  [missing_node_error source_node_id target_node_id],
                workflow_valid := False\<rparr>)"

fun for_connections ::
  "WorkflowValidationService \<Rightarrow> node list \<Rightarrow> connection list \<Rightarrow> validation_results \<Rightarrow>
   validation_results" where
  "for_connections self nodes_list [] validation_results = validation_results"
| "for_connections self nodes_list (conn # rest) validation_results =
     for_connections self nodes_list rest
       (validate_one_connection self nodes_list validation_results conn)"

definition validate_workflow_connections ::
  "WorkflowValidationService \<Rightarrow> workflow_data \<Rightarrow> validation_results" where
  "validate_workflow_connections self workflow =
     for_connections self (get_list (nodes workflow)) (get_list (connections workflow))
       \<lparr>workflow_valid = True, errors = [], warnings = [], connection_validations = []\<rparr>"

definition get_workflow_errors ::
  "WorkflowValidationService \<Rightarrow> workflow_data \<Rightarrow> validation_error list" where
  "get_workflow_errors self workflow = errors (validate_workflow_connections self workflow)"

definition can_execute_workflow :: "WorkflowValidationService \<Rightarrow> workflow_data \<Rightarrow> bool" where
  "can_execute_workflow self workflow = workflow_valid (validate_workflow_connections self workflow)"

section \<open>Frontend connection component\<close>



section \<open>Python values\<close>

text \<open>
  The values that flow between nodes: the builtin types the code tests for, bytes, and
  instances of other classes, which are opaque. \<open>PObject c\<close> is an instance of the class
  \<open>c\<close> that can be pickled, in one state that is left abstract; \<open>PUnpicklable c e\<close> is an
  instance that cannot, with the exception that pickling it raises (a lambda raises
  PicklingError, a generator or an open file TypeError, an instance of a local class
  AttributeError).

  A \<^verbatim>\<open>str\<close> is a sequence of Unicode code points. \<open>PStr s\<close> is a str whose code points
  are all below 256, one character each; \<open>PUnicode cps\<close> is any other str, by the list of its
  code points, of which at least one is 256 or more (a lone surrogate, from D800 to DFFF,
  is a code point of a Python str like any other).

  A float is identified by the text \<^verbatim>\<open>repr\<close> prints for it, which determines it; no
  arithmetic on floats is modelled. A dict is its list of items in insertion order, a set
  the list of its elements. Two values are equal here when they have the same class and
  the same content; that is the semantic equality of values. Python's \<^verbatim>\<open>==\<close> identifies
  more (\<^verbatim>\<open>1 == 1.0 == True\<close>) and in two cases less: NaN is not \<^verbatim>\<open>==\<close> to itself, and two
  instances of a class that defines no \<^verbatim>\<open>__eq__\<close> are \<^verbatim>\<open>==\<close> only when they are one
  object.

  Two kinds of values may be given by what they denote instead of their characters or
  bytes: \<open>PJsonText j\<close> is the \<^verbatim>\<open>str\<close> that \<^verbatim>\<open>json.dumps\<close> writes for the JSON document \<open>j\<close>,
  and \<open>PPickle v\<close> is the \<^verbatim>\<open>bytes\<close> that \<^verbatim>\<open>pickle.dumps\<close> writes for \<open>v\<close>.
\<close>

datatype py_exception =
  TypeError | AttributeError | JSONDecodeError | PicklingError | UnpicklingError

text \<open>A JSON document; its strings and the names of its members are lists of code points.\<close>

datatype json =
    JNull
  | JBool bool
  | JInt int
  | JFloat string
  | JStr "nat list"
  | JArr "json list"
  | JObj "(nat list \<times> json) list"

datatype pyval =
    PNone
  | PBool bool
  | PInt int
  | PFloat string
  | PStr string
  | PUnicode "nat list"
  | PJsonText json
  | PBytes "nat list"
  | PPickle pyval
  | PList "pyval list"
  | PTuple "pyval list"
  | PSet "pyval list"
  | PDict "(pyval \<times> pyval) list"
  | PObject string
  | PUnpicklable string py_exception

text \<open>\<^verbatim>\<open>isinstance\<close> for the classes the code tests; \<^verbatim>\<open>bool\<close> is a subclass of
  \<^verbatim>\<open>int\<close>, so a bool is an instance of both.\<close>

definition isinstance_str :: "pyval \<Rightarrow> bool" where
  "isinstance_str v =
     (case v of PStr s \<Rightarrow> True | PUnicode cps \<Rightarrow> True | PJsonText j \<Rightarrow> True | _ \<Rightarrow> False)"

definition isinstance_bool :: "pyval \<Rightarrow> bool" where
  "isinstance_bool v = (case v of PBool b \<Rightarrow> True | _ \<Rightarrow> False)"

definition isinstance_int :: "pyval \<Rightarrow> bool" where
  "isinstance_int v = (case v of PInt i \<Rightarrow> True | PBool b \<Rightarrow> True | _ \<Rightarrow> False)"

definition isinstance_float :: "pyval \<Rightarrow> bool" where
  "isinstance_float v = (case v of PFloat r \<Rightarrow> True | _ \<Rightarrow> False)"

definition isinstance_list :: "pyval \<Rightarrow> bool" where
  "isinstance_list v = (case v of PList xs \<Rightarrow> True | _ \<Rightarrow> False)"

definition isinstance_tuple :: "pyval \<Rightarrow> bool" where
  "isinstance_tuple v = (case v of PTuple xs \<Rightarrow> True | _ \<Rightarrow> False)"

definition isinstance_set :: "pyval \<Rightarrow> bool" where
  "isinstance_set v = (case v of PSet xs \<Rightarrow> True | _ \<Rightarrow> False)"

definition isinstance_dict :: "pyval \<Rightarrow> bool" where
  "isinstance_dict v = (case v of PDict kvs \<Rightarrow> True | _ \<Rightarrow> False)"

section \<open>Type inference from runtime values\<close>

definition infer_type_from_value :: "pyval \<Rightarrow> string" where
  "infer_type_from_value v =
     (if v = PNone then ''null''
      else if isinstance_bool v then ''boolean''
      else if isinstance_int v then ''integer''
      else if isinstance_float v then ''float''
      else if isinstance_str v then ''string''
      else if isinstance_list v then ''list''
      else if isinstance_tuple v then ''tuple''
      else if isinstance_set v then ''set''
      else if isinstance_dict v then ''dict''
      else ''object'')"

section \<open>The JSON and pickle libraries\<close>

text \<open>
  \<^verbatim>\<open>json\<close> and \<^verbatim>\<open>pickle\<close> are Python's standard library, modelled on documents and
  values instead of characters and bytes. A call either returns, or raises, or lies
  outside what is modelled (\<open>NotModelled\<close>): reading a \<^verbatim>\<open>str\<close> or \<^verbatim>\<open>bytes\<close> given by its
  characters needs a parser, and writing a \<open>PJsonText\<close> inside another document needs its
  characters. No statement below rests on a \<open>NotModelled\<close> result.
\<close>

datatype failure = Raises py_exception | NotModelled

text \<open>The results of the parts of a container, in order, up to the first failure.\<close>

fun sequence :: "('e + 'a) list \<Rightarrow> 'e + 'a list" where
  "sequence [] = Inr []"
| "sequence (Inl failed # rest) = Inl failed"
| "sequence (Inr done # rest) = map_sum id ((#) done) (sequence rest)"

text \<open>
  Both libraries walk a value recursively and raise RecursionError when the nesting of its
  containers outruns the interpreter's recursion limit. Where that happens depends on the
  limit that is set (1000 by default) and on the depth of the calling stack, so the model
  covers values nested up to \<open>modelled_nesting_depth\<close> and leaves deeper ones out. The
  depth of a scalar is 0, that of a container one more than the deepest of its parts.
\<close>

definition modelled_nesting_depth :: nat where
  "modelled_nesting_depth = 100"

definition deepest :: "nat list \<Rightarrow> nat" where
  "deepest ds = foldr max ds 0"

primrec nesting_depth :: "pyval \<Rightarrow> nat" where
  "nesting_depth PNone = 0"
| "nesting_depth (PBool b) = 0"
| "nesting_depth (PInt i) = 0"
| "nesting_depth (PFloat r) = 0"
| "nesting_depth (PStr s) = 0"
| "nesting_depth (PUnicode cps) = 0"
| "nesting_depth (PJsonText j) = 0"
| "nesting_depth (PBytes b) = 0"
| "nesting_depth (PPickle v) = 0"
| "nesting_depth (PList xs) = Suc (deepest (map nesting_depth xs))"
| "nesting_depth (PTuple xs) = Suc (deepest (map nesting_depth xs))"
| "nesting_depth (PSet xs) = Suc (deepest (map nesting_depth xs))"
| "nesting_depth (PDict kvs) =
     Suc (deepest (map (\<lambda>kv. max (fst kv) (snd kv))
                     (map (map_prod nesting_depth nesting_depth) kvs)))"
| "nesting_depth (PObject c) = 0"
| "nesting_depth (PUnpicklable c e) = 0"

primrec json_depth :: "json \<Rightarrow> nat" where
  "json_depth JNull = 0"
| "json_depth (JBool b) = 0"
| "json_depth (JInt i) = 0"
| "json_depth (JFloat r) = 0"
| "json_depth (JStr cps) = 0"
| "json_depth (JArr js) = Suc (deepest (map json_depth js))"
| "json_depth (JObj ms) = Suc (deepest (map snd (map (map_prod id json_depth) ms)))"

text \<open>\<^verbatim>\<open>str(i)\<close> for an integer: the decimal digits, with a sign when negative.\<close>

definition digit_char :: "nat \<Rightarrow> char" where
  "digit_char d =
     (if d = 0 then CHR ''0'' else if d = 1 then CHR ''1'' else if d = 2 then CHR ''2''
      else if d = 3 then CHR ''3'' else if d = 4 then CHR ''4'' else if d = 5 then CHR ''5''
      else if d = 6 then CHR ''6'' else if d = 7 then CHR ''7'' else if d = 8 then CHR ''8''
      else CHR ''9'')"

function str_of_nat :: "nat \<Rightarrow> string" where
  "str_of_nat n = (if n < 10 then [digit_char n] else str_of_nat (n div 10) @ [digit_char (n mod 10)])"
  by pat_completeness auto
termination by (relation "measure id") auto

definition str_of_int :: "int \<Rightarrow> string" where
  "str_of_int i = (if i < 0 then CHR ''-'' # str_of_nat (nat (- i)) else str_of_nat (nat i))"

text \<open>
  From Python 3.11 on, converting an int of more than 4300 digits to or from text raises
  ValueError; earlier versions convert it. The repository runs several versions, so the
  model converts the ints within the limit and leaves the others out.
\<close>

definition within_int_max_str_digits :: "int \<Rightarrow> bool" where
  "within_int_max_str_digits i \<longleftrightarrow> length (str_of_nat (nat \<bar>i\<bar>)) \<le> 4300"

text \<open>
  The code points of a str, and the str of a list of code points. \<^verbatim>\<open>json.dumps\<close> writes
  every code point from 128 on as an escape of four hexadecimal digits, one from 10000
  (hexadecimal) on as the two escapes of its surrogate pair; \<^verbatim>\<open>json.loads\<close> reads two
  escapes that are a high surrogate (D800 to DBFF) and then a low surrogate (DC00 to DFFF)
  as the one code point of that pair, going from left to right. So the string of the
  document written for a str is the str with every high surrogate that a low surrogate
  follows joined with it.
\<close>

definition code_points :: "string \<Rightarrow> nat list" where
  "code_points s = map of_char s"

definition str_of_code_points :: "nat list \<Rightarrow> pyval" where
  "str_of_code_points cps =
     (if list_all (\<lambda>c. c < 256) cps then PStr (map char_of cps) else PUnicode cps)"

definition high_surrogate :: "nat \<Rightarrow> bool" where
  "high_surrogate c \<longleftrightarrow> 0xD800 \<le> c \<and> c \<le> 0xDBFF"

definition low_surrogate :: "nat \<Rightarrow> bool" where
  "low_surrogate c \<longleftrightarrow> 0xDC00 \<le> c \<and> c \<le> 0xDFFF"

fun join_surrogate_pairs :: "nat list \<Rightarrow> nat list" where
  "join_surrogate_pairs (h # l # rest) =
     (if high_surrogate h \<and> low_surrogate l
      then (0x10000 + (h - 0xD800) * 0x400 + (l - 0xDC00)) # join_surrogate_pairs rest
      else h # join_surrogate_pairs (l # rest))"
| "join_surrogate_pairs cps = cps"

text \<open>
  \<^verbatim>\<open>json.dumps\<close> with its default arguments: a list or a tuple becomes an array; a dict
  becomes an object, whose keys are the \<^verbatim>\<open>str\<close> keys and, coerced to text, the keys that
  are \<^verbatim>\<open>None\<close>, a bool, an int or a float, any other key raising TypeError; a set,
  bytes or an instance of another class raises TypeError.
\<close>

definition json_float_text :: "string \<Rightarrow> string" where
  "json_float_text r = (if r = ''nan'' then ''NaN'' else if r = ''inf'' then ''Infinity''
                        else if r = ''-inf'' then ''-Infinity'' else r)"

fun json_key :: "pyval \<Rightarrow> failure + nat list" where
  "json_key (PStr s) = Inr (code_points s)"
| "json_key (PUnicode cps) = Inr (join_surrogate_pairs cps)"
| "json_key (PJsonText j) = Inl NotModelled"
| "json_key PNone = Inr (code_points ''null'')"
| "json_key (PBool b) = Inr (code_points (if b then ''true'' else ''false''))"
| "json_key (PInt i) =
     (if within_int_max_str_digits i then Inr (code_points (str_of_int i)) else Inl NotModelled)"
| "json_key (PFloat r) = Inr (code_points (json_float_text r))"
| "json_key k = Inl (Raises TypeError)"

definition json_member :: "pyval \<times> (failure + json) \<Rightarrow> failure + nat list \<times> json" where
  "json_member kv =
     (case json_key (fst kv) of Inl e \<Rightarrow> Inl e
      | Inr s \<Rightarrow> (case snd kv of Inl e \<Rightarrow> Inl e | Inr j \<Rightarrow> Inr (s, j)))"

definition json_array :: "(failure + json) list \<Rightarrow> failure + json" where
  "json_array items = (case sequence items of Inl e \<Rightarrow> Inl e | Inr js \<Rightarrow> Inr (JArr js))"

definition json_object :: "(pyval \<times> (failure + json)) list \<Rightarrow> failure + json" where
  "json_object members =
     (case sequence (map json_member members) of Inl e \<Rightarrow> Inl e | Inr ms \<Rightarrow> Inr (JObj ms))"

primrec to_json :: "pyval \<Rightarrow> failure + json" where
  "to_json PNone = Inr JNull"
| "to_json (PBool b) = Inr (JBool b)"
| "to_json (PInt i) = (if within_int_max_str_digits i then Inr (JInt i) else Inl NotModelled)"
| "to_json (PFloat r) = Inr (JFloat r)"
| "to_json (PStr s) = Inr (JStr (code_points s))"
| "to_json (PUnicode cps) = Inr (JStr (join_surrogate_pairs cps))"
| "to_json (PJsonText j) = Inl NotModelled"
| "to_json (PBytes b) = Inl (Raises TypeError)"
| "to_json (PPickle v) = Inl (Raises TypeError)"
| "to_json (PList xs) = json_array (map to_json xs)"
| "to_json (PTuple xs) = json_array (map to_json xs)"
| "to_json (PSet xs) = Inl (Raises TypeError)"
| "to_json (PDict kvs) = json_object (map (map_prod id to_json) kvs)"
| "to_json (PObject c) = Inl (Raises TypeError)"
| "to_json (PUnpicklable c e) = Inl (Raises TypeError)"

text \<open>
  \<^verbatim>\<open>json.loads\<close>: an array becomes a list, an object a dict built by assigning its
  members in order, so that of two members with one name the later value stays.
\<close>

fun dict_setitem :: "('k \<times> 'v) list \<Rightarrow> 'k \<Rightarrow> 'v \<Rightarrow> ('k \<times> 'v) list" where
  "dict_setitem [] k v = [(k, v)]"
| "dict_setitem ((k', v') # rest) k v =
     (if k' = k then (k', v) # rest else (k', v') # dict_setitem rest k v)"

definition dict_of_items :: "('k \<times> 'v) list \<Rightarrow> ('k \<times> 'v) list" where
  "dict_of_items kvs = foldl (\<lambda>d kv. dict_setitem d (fst kv) (snd kv)) [] kvs"

primrec from_json :: "json \<Rightarrow> pyval" where
  "from_json JNull = PNone"
| "from_json (JBool b) = PBool b"
| "from_json (JInt i) = PInt i"
| "from_json (JFloat r) = PFloat r"
| "from_json (JStr cps) = str_of_code_points cps"
| "from_json (JArr js) = PList (map from_json js)"
| "from_json (JObj ms) = PDict (dict_of_items (map (map_prod str_of_code_points from_json) ms))"

definition json_dumps :: "pyval \<Rightarrow> failure + pyval" where
  "json_dumps obj =
     (if modelled_nesting_depth < nesting_depth obj then Inl NotModelled
      else (case to_json obj of Inl e \<Rightarrow> Inl e | Inr j \<Rightarrow> Inr (PJsonText j)))"

fun json_loads :: "pyval \<Rightarrow> failure + pyval" where
  "json_loads (PJsonText j) =
     (if modelled_nesting_depth < json_depth j then Inl NotModelled else Inr (from_json j))"
| "json_loads (PStr s) = Inl NotModelled"
| "json_loads (PUnicode cps) = Inl NotModelled"
| "json_loads (PBytes b) = Inl NotModelled"
| "json_loads (PPickle v) = Inl NotModelled"
| "json_loads v = Inl (Raises TypeError)"

text \<open>
  \<^verbatim>\<open>pickle.dumps\<close> walks the value and raises what its first part that cannot be pickled
  raises; otherwise it writes the value, and \<^verbatim>\<open>pickle.loads\<close> rebuilds from the bytes a
  value of the same classes and content (for an instance of another class, an instance of
  that class in the same state).
\<close>

definition first_failure :: "py_exception option list \<Rightarrow> py_exception option" where
  "first_failure rs = foldr (\<lambda>r found. case r of Some e \<Rightarrow> Some e | None \<Rightarrow> found) rs None"

primrec pickle_failure :: "pyval \<Rightarrow> py_exception option" where
  "pickle_failure PNone = None"
| "pickle_failure (PBool b) = None"
| "pickle_failure (PInt i) = None"
| "pickle_failure (PFloat r) = None"
| "pickle_failure (PStr s) = None"
| "pickle_failure (PUnicode cps) = None"
| "pickle_failure (PJsonText j) = None"
| "pickle_failure (PBytes b) = None"
| "pickle_failure (PPickle v) = None"
| "pickle_failure (PList xs) = first_failure (map pickle_failure xs)"
| "pickle_failure (PTuple xs) = first_failure (map pickle_failure xs)"
| "pickle_failure (PSet xs) = first_failure (map pickle_failure xs)"
| "pickle_failure (PDict kvs) =
     first_failure (map (\<lambda>kv. first_failure [fst kv, snd kv])
                      (map (map_prod pickle_failure pickle_failure) kvs))"
| "pickle_failure (PObject c) = None"
| "pickle_failure (PUnpicklable c e) = Some e"

definition pickle_dumps :: "pyval \<Rightarrow> failure + pyval" where
  "pickle_dumps obj =
     (if modelled_nesting_depth < nesting_depth obj then Inl NotModelled
      else (case pickle_failure obj of Some e \<Rightarrow> Inl (Raises e) | None \<Rightarrow> Inr (PPickle obj)))"

fun pickle_loads :: "pyval \<Rightarrow> failure + pyval" where
  "pickle_loads (PPickle v) =
     (if modelled_nesting_depth < nesting_depth v then Inl NotModelled else Inr v)"
| "pickle_loads (PBytes b) = Inl NotModelled"
| "pickle_loads v = Inl (Raises TypeError)"

section \<open>Data flow codec\<close>

text \<open>
  \<^verbatim>\<open>TypeConverter\<close> in \<^verbatim>\<open>architecture/Qflow_Development_Plan.md\<close>. The wire value is a
  dict with the keys \<^verbatim>\<open>type\<close> and \<^verbatim>\<open>value\<close>; \<^verbatim>\<open>expected_type\<close> is a class, given by its
  name.
\<close>

type_synonym n8n_data = "(string, pyval) dict"
type_synonym pytype = string

definition python_to_n8n :: "pyval \<Rightarrow> failure + n8n_data" where
  "python_to_n8n python_data =
     (if isinstance_str python_data \<or> isinstance_int python_data
         \<or> isinstance_float python_data \<or> isinstance_bool python_data
      then Inr [(''type'', PStr ''simple''), (''value'', python_data)]
      else if isinstance_list python_data \<or> isinstance_dict python_data
      then (case json_dumps python_data of
              Inl e \<Rightarrow> Inl e
            | Inr text \<Rightarrow> Inr [(''type'', PStr ''json''), (''value'', text)])
      else (case pickle_dumps python_data of
              Inl e \<Rightarrow> Inl e
            | Inr bytes \<Rightarrow> Inr [(''type'', PStr ''pickle''), (''value'', bytes)]))"

definition n8n_to_python :: "n8n_data \<Rightarrow> pytype \<Rightarrow> failure + pyval" where
  "n8n_to_python n8n_data expected_type =
     (let data_type = dict_get n8n_data ''type'' PNone;
          value = dict_get n8n_data ''value'' PNone
      in if data_type = PStr ''simple'' then Inr value
         else if data_type = PStr ''json'' then json_loads value
         else if data_type = PStr ''pickle'' then pickle_loads value
         else Inr value)"

section \<open>Auxiliary notions for the statements\<close>

text \<open>The two dicts that \<open>check_port_pair\<close> appends, and the test that chooses between them.\<close>

definition ports_compatible :: "TypeValidationService \<Rightarrow> port \<times> port \<Rightarrow> bool" where
  "ports_compatible self p =
     are_types_compatible self (port_type (fst p)) (port_type (snd p))"

definition valid_connection_info :: "port \<times> port \<Rightarrow> connection_info" where
  "valid_connection_info p =
     \<lparr>source_output = fst p, target_input = snd p, compatible = True,
      reason = ''Types are compatible'', suggestions = None\<rparr>"

definition invalid_connection_info :: "TypeValidationService \<Rightarrow> port \<times> port \<Rightarrow> connection_info" where
  "invalid_connection_info self p =
     \<lparr>source_output = fst p, target_input = snd p, compatible = False,
      reason = ''Cannot connect '' @ port_type (fst p) @ '' to '' @ port_type (snd p),
      suggestions = Some (get_compatible_types self (port_type (fst p)))\<rparr>"

text \<open>What one connection adds to \<^verbatim>\<open>errors\<close>: nothing, or one entry.\<close>

definition connection_errors ::
  "WorkflowValidationService \<Rightarrow> node list \<Rightarrow> connection \<Rightarrow> validation_error list" where
  "connection_errors self nodes_list conn =
     (case (find_node_by_id nodes_list (nodeId (source conn)),
            find_node_by_id nodes_list (nodeId (target conn))) of
        (Some source_node, Some target_node) \<Rightarrow>
          if can_connect (validate_node_connection (type_validator self) source_node target_node)
          then []
          else [incompatible_types_error (nodeId (source conn)) (nodeId (target conn))
                  (invalid_connections
                     (validate_node_connection (type_validator self) source_node target_node))]
      | _ \<Rightarrow> [missing_node_error (nodeId (source conn)) (nodeId (target conn))])"

text \<open>A connection with the ports it names replaced.\<close>

definition rename_ports :: "string \<Rightarrow> string \<Rightarrow> connection \<Rightarrow> connection" where
  "rename_ports p q conn =
     conn\<lparr>source := (source conn)\<lparr>portName := p\<rparr>, target := (target conn)\<lparr>portName := q\<rparr>\<rparr>"

text \<open>
  A two-node workflow for the examples: \<open>reader\<close> has the outputs \<open>text : string\<close> and
  \<open>items : list\<close>, \<open>writer\<close> has the inputs \<open>count : integer\<close> and \<open>rows : array\<close>. Its one
  connection leads from \<open>text\<close> to \<open>count\<close>.
\<close>

definition reader_node :: node where
  "reader_node =
     \<lparr>node_id = ''reader'',
      outputs = Some [\<lparr>port_name = ''text'', port_type = ''string''\<rparr>,
                      \<lparr>port_name = ''items'', port_type = ''list''\<rparr>],
      inputs = None\<rparr>"

definition writer_node :: node where
  "writer_node =
     \<lparr>node_id = ''writer'',
      outputs = None,
      inputs = Some [\<lparr>port_name = ''count'', port_type = ''integer''\<rparr>,
                     \<lparr>port_name = ''rows'', port_type = ''array''\<rparr>]\<rparr>"

definition text_to_count :: connection where
  "text_to_count =
     \<lparr>source = \<lparr>nodeId = ''reader'', portName = ''text''\<rparr>,
      target = \<lparr>nodeId = ''writer'', portName = ''count''\<rparr>\<rparr>"


definition reader_writer_workflow :: workflow_data where
  "reader_writer_workflow =
     \<lparr>nodes = Some [reader_node, writer_node], connections = Some [text_to_count]\<rparr>"


definition is_simple :: "pyval \<Rightarrow> bool" where
  "is_simple v \<longleftrightarrow> isinstance_str v \<or> isinstance_int v \<or> isinstance_float v \<or> isinstance_bool v"





section \<open>Facts about dictionaries and the two compatibility tables\<close>

lemma map_of_build_compatibility_matrix:
  "map_of (build_compatibility_matrix reg) k = map_option compatible_types (map_of reg k)"
  by (induction reg rule: build_compatibility_matrix.induct) auto

text \<open>Every registered type but \<open>any\<close> lists itself in its own row, in both tables.\<close>

lemma registry_row_reflexive:
  "map_of initialize_type_registry t = Some ti \<Longrightarrow> t \<noteq> ''any'' \<Longrightarrow>
   t \<in> set (compatible_types ti)"
  by (auto simp: initialize_type_registry_def mk_TypeInfo_def split: if_splits)

lemma frontend_row_reflexive: "map_of typeCompatibility t = Some cs \<Longrightarrow> t \<in> set cs"
  by (auto simp: typeCompatibility_def split: if_splits)

lemmas backend_eval =
  are_types_compatible_def new_TypeValidationService_def dict_contains_def dict_get_def
  initialize_type_registry_def mk_TypeInfo_def

lemmas frontend_eval =
  areTypesCompatible_def typeCompatibility_def Object_prototype_properties_def

section \<open>The compatibility check\<close>

text \<open>
  C1, as the code has it. The backend check answers true exactly when both names are
  registered and the output type equals the input type, or either is \<open>any\<close>, or the
  input type is in the output type's declared row. The frontend check has no registry and
  no equality test: whenever either side is \<open>any\<close> or the output type is a key of the
  frontend table, it answers true exactly when the two names are equal, or either is
  \<open>any\<close>, or the input type is in the output type's row.
\<close>

theorem C1_compatibility_characterised:
  "(are_types_compatible new_TypeValidationService output_type input_type \<longleftrightarrow>
      dict_contains (type_registry new_TypeValidationService) output_type \<and>
      dict_contains (type_registry new_TypeValidationService) input_type \<and>
      (output_type = input_type \<or> output_type = ''any'' \<or> input_type = ''any'' \<or>
       input_type \<in> set (dict_get (type_compatibility new_TypeValidationService) output_type [])))
   \<and>
   (output_type = ''any'' \<or> input_type = ''any'' \<or> dict_contains typeCompatibility output_type \<longrightarrow>
      areTypesCompatible output_type input_type =
        Inr (output_type = input_type \<or> output_type = ''any'' \<or> input_type = ''any'' \<or>
             input_type \<in> set (dict_get typeCompatibility output_type [])))"
proof (intro conjI impI)
  show "are_types_compatible new_TypeValidationService output_type input_type \<longleftrightarrow>
      dict_contains (type_registry new_TypeValidationService) output_type \<and>
      dict_contains (type_registry new_TypeValidationService) input_type \<and>
      (output_type = input_type \<or> output_type = ''any'' \<or> input_type = ''any'' \<or>
       input_type \<in> set (dict_get (type_compatibility new_TypeValidationService) output_type []))"
    unfolding are_types_compatible_def
    by (auto simp: new_TypeValidationService_def dict_contains_def dict_get_def
          map_of_build_compatibility_matrix
        dest: registry_row_reflexive split: option.splits)
next
  assume "output_type = ''any'' \<or> input_type = ''any'' \<or> dict_contains typeCompatibility output_type"
  then show "areTypesCompatible output_type input_type =
        Inr (output_type = input_type \<or> output_type = ''any'' \<or> input_type = ''any'' \<or>
             input_type \<in> set (dict_get typeCompatibility output_type []))"
    unfolding areTypesCompatible_def
    by (auto simp: dict_contains_def dict_get_def dest: frontend_row_reflexive
        split: option.splits)
qed

theorem C1_compatibility_characterised_witness:
  "are_types_compatible new_TypeValidationService ''number'' ''integer'' \<and>
   areTypesCompatible ''number'' ''integer'' = Inr True \<and>
   \<not> are_types_compatible new_TypeValidationService ''string'' ''number'' \<and>
   areTypesCompatible ''string'' ''number'' = Inr False"
  using C1_compatibility_characterised [of "''number''" "''integer''"]
    C1_compatibility_characterised [of "''string''" "''number''"]
  by (simp add: new_TypeValidationService_def dict_contains_def dict_get_def
        initialize_type_registry_def mk_TypeInfo_def typeCompatibility_def)

text \<open>
  C1 as stated fails on equal names: a name that is not registered is not compatible with
  itself in the backend, and a name that is not a key of the frontend table (\<open>tuple\<close> is
  none) is not compatible with itself in the frontend.
\<close>

theorem C1_equal_names_counterexample:
  "\<not> are_types_compatible new_TypeValidationService ''custom'' ''custom'' \<and>
   areTypesCompatible ''tuple'' ''tuple'' = Inr False"
  by (simp add: backend_eval frontend_eval)

text \<open>
  C3: for every type \<open>T\<close> registered in the type registry, the check answers true for
  \<open>(T, any)\<close> and for \<open>(any, T)\<close>; the frontend check does so for every name.
\<close>

theorem C3_any_is_universal:
  assumes "dict_contains (type_registry new_TypeValidationService) T"
  shows "are_types_compatible new_TypeValidationService T ''any'' \<and>
         are_types_compatible new_TypeValidationService ''any'' T \<and>
         areTypesCompatible T ''any'' = Inr True \<and>
         areTypesCompatible ''any'' T = Inr True"
proof -
  have "dict_contains (type_registry new_TypeValidationService) ''any''"
    by (simp add: new_TypeValidationService_def dict_contains_def
          initialize_type_registry_def)
  with assms show ?thesis
    by (simp add: are_types_compatible_def areTypesCompatible_def)
qed

theorem C3_any_is_universal_witness:
  "dict_contains (type_registry new_TypeValidationService) ''dataframe'' \<and>
   are_types_compatible new_TypeValidationService ''dataframe'' ''any'' \<and>
   are_types_compatible new_TypeValidationService ''any'' ''dataframe'' \<and>
   areTypesCompatible ''dataframe'' ''any'' = Inr True \<and>
   areTypesCompatible ''any'' ''dataframe'' = Inr True"
proof -
  have h: "dict_contains (type_registry new_TypeValidationService) ''dataframe''"
    by (simp add: new_TypeValidationService_def dict_contains_def
          initialize_type_registry_def)
  show ?thesis using h C3_any_is_universal [OF h] by simp
qed

text \<open>
  C7: the check is directional. Its answer for \<open>(A, B)\<close> depends on the registered names
  and on \<open>A\<close>'s row only: two services that register the same names and agree on \<open>A\<close>'s
  row agree on \<open>(A, B)\<close>, whatever \<open>B\<close>'s row holds. In the shipped table \<open>tuple\<close> may
  flow into \<open>list\<close> while \<open>list\<close> may not flow into \<open>tuple\<close>.
\<close>

theorem C7_declared_direction_only:
  assumes "\<forall>k. dict_contains (type_registry s2) k = dict_contains (type_registry s1) k"
    and "dict_get (type_compatibility s2) A [] = dict_get (type_compatibility s1) A []"
  shows "are_types_compatible s2 A B = are_types_compatible s1 A B \<and>
         are_types_compatible new_TypeValidationService ''tuple'' ''list'' \<and>
         \<not> are_types_compatible new_TypeValidationService ''list'' ''tuple''"
proof (intro conjI)
  from assms show "are_types_compatible s2 A B = are_types_compatible s1 A B"
    by (simp add: are_types_compatible_def)
next
  show "are_types_compatible new_TypeValidationService ''tuple'' ''list''"
    by (simp add: backend_eval)
next
  show "\<not> are_types_compatible new_TypeValidationService ''list'' ''tuple''"
    by (simp add: backend_eval)
qed

text \<open>The witness drops every row but \<open>tuple\<close>'s: the answer for \<open>(tuple, list)\<close> stays.\<close>

theorem C7_declared_direction_only_witness:
  "are_types_compatible
     (new_TypeValidationService
        \<lparr>type_compatibility := [(''tuple'', [''tuple'', ''list'', ''array'', ''any''])]\<rparr>)
     ''tuple'' ''list''
   = are_types_compatible new_TypeValidationService ''tuple'' ''list'' \<and>
   are_types_compatible new_TypeValidationService ''tuple'' ''list'' \<and>
   \<not> are_types_compatible new_TypeValidationService ''list'' ''tuple''"
proof -
  let ?s2 = "new_TypeValidationService
        \<lparr>type_compatibility := [(''tuple'', [''tuple'', ''list'', ''array'', ''any''])]\<rparr>"
  have h1: "\<forall>k. dict_contains (type_registry ?s2) k
              = dict_contains (type_registry new_TypeValidationService) k"
    by simp
  have h2: "dict_get (type_compatibility ?s2) ''tuple'' []
              = dict_get (type_compatibility new_TypeValidationService) ''tuple'' []"
    by (simp add: new_TypeValidationService_def dict_get_def initialize_type_registry_def
          mk_TypeInfo_def)
  show ?thesis using C7_declared_direction_only [OF h1 h2, of "''list''"] by simp
qed

text \<open>
  C9: when either name is absent from the type registry, the backend check answers false,
  also when the two names are equal and when the other side is \<open>any\<close>. The membership
  test on a dict keyed by strings raises nothing, so the check is a total function.
\<close>

theorem C9_unregistered_is_incompatible:
  assumes "\<not> dict_contains (type_registry self) output_type
           \<or> \<not> dict_contains (type_registry self) input_type"
  shows "are_types_compatible self output_type input_type = False"
  using assms by (auto simp: are_types_compatible_def)

theorem C9_unregistered_is_incompatible_witness:
  "\<not> dict_contains (type_registry new_TypeValidationService) ''custom'' \<and>
   are_types_compatible new_TypeValidationService ''custom'' ''custom'' = False \<and>
   are_types_compatible new_TypeValidationService ''custom'' ''any'' = False \<and>
   are_types_compatible new_TypeValidationService ''any'' ''custom'' = False"
proof -
  have h: "\<not> dict_contains (type_registry new_TypeValidationService) ''custom''"
    by (simp add: new_TypeValidationService_def dict_contains_def
          initialize_type_registry_def)
  show ?thesis
    using h C9_unregistered_is_incompatible [of new_TypeValidationService "''custom''" "''custom''"]
      C9_unregistered_is_incompatible [of new_TypeValidationService "''custom''" "''any''"]
      C9_unregistered_is_incompatible [of new_TypeValidationService "''any''" "''custom''"]
    by simp
qed

section \<open>Node connection validation is a cross product\<close>

lemma for_target_inputs_eq:
  "for_target_inputs self output ins acc =
     (fst acc @ map valid_connection_info
                  (filter (ports_compatible self) (map (Pair output) ins)),
      snd acc @ map (invalid_connection_info self)
                  (filter (\<lambda>p. \<not> ports_compatible self p) (map (Pair output) ins)))"
  by (induction ins arbitrary: acc)
     (simp_all add: check_port_pair_def valid_connection_info_def invalid_connection_info_def
        ports_compatible_def Let_def)

lemma for_source_outputs_eq:
  "for_source_outputs self outs ins acc =
     (fst acc @ map valid_connection_info
                  (filter (ports_compatible self) (List.product outs ins)),
      snd acc @ map (invalid_connection_info self)
                  (filter (\<lambda>p. \<not> ports_compatible self p) (List.product outs ins)))"
  by (induction outs arbitrary: acc) (simp_all add: for_target_inputs_eq)

lemma can_connect_iff:
  "can_connect (validate_node_connection self s t) \<longleftrightarrow>
     (\<exists>output \<in> set (get_list (outputs s)). \<exists>input_port \<in> set (get_list (inputs t)).
        are_types_compatible self (port_type output) (port_type input_port))"
  by (auto simp: validate_node_connection_def Let_def for_source_outputs_eq filter_empty_conv
        ports_compatible_def)

lemma invalid_connections_eq:
  "invalid_connections (validate_node_connection self s t) =
     map (invalid_connection_info self)
       (filter (\<lambda>p. \<not> ports_compatible self p)
          (List.product (get_list (outputs s)) (get_list (inputs t))))"
  by (simp add: validate_node_connection_def Let_def for_source_outputs_eq)

section \<open>The loop over the connections\<close>

lemma validate_one_connection_errors:
  "errors (validate_one_connection self ns r c) = errors r @ connection_errors self ns c"
  by (simp add: validate_one_connection_def connection_errors_def Let_def split: option.splits)

lemma validate_one_connection_valid:
  "workflow_valid (validate_one_connection self ns r c) =
     (workflow_valid r \<and> connection_errors self ns c = [])"
  by (simp add: validate_one_connection_def connection_errors_def Let_def split: option.splits)

lemma for_connections_errors:
  "errors (for_connections self ns cs r) = errors r @ concat (map (connection_errors self ns) cs)"
  by (induction cs arbitrary: r) (simp_all add: validate_one_connection_errors)

lemma for_connections_valid:
  "workflow_valid (for_connections self ns cs r) =
     (workflow_valid r \<and> concat (map (connection_errors self ns) cs) = [])"
  by (induction cs arbitrary: r) (auto simp add: validate_one_connection_valid)

lemma connection_errors_rename_ports:
  "connection_errors self ns (rename_ports p q c) = connection_errors self ns c"
  by (simp add: connection_errors_def rename_ports_def split: option.splits)

lemma connection_errors_comp_rename_ports:
  "connection_errors self ns \<circ> rename_ports p q = connection_errors self ns"
  by (rule ext) (simp add: connection_errors_rename_ports)

text \<open>The example workflow: \<open>string\<close> does not flow into \<open>integer\<close>, \<open>list\<close> flows into
  \<open>array\<close>, so the two nodes can be connected.\<close>

lemma string_integer_incompatible:
  "\<not> are_types_compatible new_TypeValidationService ''string'' ''integer''"
  by (simp add: backend_eval)

lemma list_array_compatible:
  "are_types_compatible new_TypeValidationService ''list'' ''array''"
  by (simp add: backend_eval)




text \<open>
  C8: \<^verbatim>\<open>validate_node_connection\<close> works on the cross product of the source node's
  outputs and the target node's inputs. \<^verbatim>\<open>can_connect\<close> (and \<^verbatim>\<open>valid\<close>) is true
  exactly when at least one pair is type-compatible; \<^verbatim>\<open>invalid_connections\<close> lists every
  incompatible pair, in loop order. The ports a connection names play no part: replacing
  them in every connection of a workflow changes neither the errors nor the validity.
\<close>

theorem C8_cross_product_of_ports:
  "(can_connect (validate_node_connection self source_node target_node) \<longleftrightarrow>
      (\<exists>output \<in> set (get_list (outputs source_node)).
       \<exists>input_port \<in> set (get_list (inputs target_node)).
         are_types_compatible self (port_type output) (port_type input_port)))
   \<and> valid (validate_node_connection self source_node target_node)
       = can_connect (validate_node_connection self source_node target_node)
   \<and> invalid_connections (validate_node_connection self source_node target_node)
       = map (invalid_connection_info self)
           (filter (\<lambda>p. \<not> are_types_compatible self (port_type (fst p)) (port_type (snd p)))
              (List.product (get_list (outputs source_node)) (get_list (inputs target_node))))
   \<and> errors (validate_workflow_connections service
         (workflow\<lparr>connections := Some (map (rename_ports p q) (get_list (connections workflow)))\<rparr>))
       = errors (validate_workflow_connections service workflow)
   \<and> workflow_valid (validate_workflow_connections service
         (workflow\<lparr>connections := Some (map (rename_ports p q) (get_list (connections workflow)))\<rparr>))
       = workflow_valid (validate_workflow_connections service workflow)"
proof (intro conjI)
  show "can_connect (validate_node_connection self source_node target_node) \<longleftrightarrow>
      (\<exists>output \<in> set (get_list (outputs source_node)).
       \<exists>input_port \<in> set (get_list (inputs target_node)).
         are_types_compatible self (port_type output) (port_type input_port))"
    by (rule can_connect_iff)
next
  show "valid (validate_node_connection self source_node target_node)
       = can_connect (validate_node_connection self source_node target_node)"
    by (simp add: validate_node_connection_def Let_def)
next
  have "(\<lambda>p. \<not> are_types_compatible self (port_type (fst p)) (port_type (snd p)))
          = (\<lambda>p. \<not> ports_compatible self p)"
    by (simp add: ports_compatible_def)
  then show "invalid_connections (validate_node_connection self source_node target_node)
       = map (invalid_connection_info self)
           (filter (\<lambda>p. \<not> are_types_compatible self (port_type (fst p)) (port_type (snd p)))
              (List.product (get_list (outputs source_node)) (get_list (inputs target_node))))"
    by (simp add: invalid_connections_eq)
next
  note same = connection_errors_comp_rename_ports
  show "errors (validate_workflow_connections service
         (workflow\<lparr>connections := Some (map (rename_ports p q) (get_list (connections workflow)))\<rparr>))
       = errors (validate_workflow_connections service workflow)"
    by (simp add: validate_workflow_connections_def for_connections_errors get_list_def same)
  show "workflow_valid (validate_workflow_connections service
         (workflow\<lparr>connections := Some (map (rename_ports p q) (get_list (connections workflow)))\<rparr>))
       = workflow_valid (validate_workflow_connections service workflow)"
    by (simp add: validate_workflow_connections_def for_connections_valid get_list_def same)
qed

text \<open>For the example nodes: they can be connected, and the three incompatible pairs of
  the four are listed.\<close>

theorem C8_cross_product_of_ports_witness:
  "can_connect (validate_node_connection new_TypeValidationService reader_node writer_node) \<and>
   map (\<lambda>c. (port_name (source_output c), port_name (target_input c)))
     (invalid_connections
        (validate_node_connection new_TypeValidationService reader_node writer_node))
     = [(''text'', ''count''), (''text'', ''rows''), (''items'', ''count'')] \<and>
   workflow_valid (validate_workflow_connections new_WorkflowValidationService
     (reader_writer_workflow
        \<lparr>connections := Some [rename_ports ''items'' ''rows'' text_to_count]\<rparr>))
     = workflow_valid
         (validate_workflow_connections new_WorkflowValidationService reader_writer_workflow)"
proof -
  have c: "\<not> are_types_compatible new_TypeValidationService ''string'' ''array''"
    "\<not> are_types_compatible new_TypeValidationService ''list'' ''integer''"
    by (simp_all add: backend_eval)
  show ?thesis
    using C8_cross_product_of_ports [of new_TypeValidationService reader_node writer_node
        new_WorkflowValidationService "''items''" "''rows''" reader_writer_workflow]
      c string_integer_incompatible list_array_compatible
    by (simp add: reader_node_def writer_node_def get_list_def invalid_connection_info_def
          reader_writer_workflow_def)
qed

section \<open>Workflow validation\<close>

text \<open>
  Validation never stops early: the error list is the concatenation, in connection order,
  of what each connection contributes, which is one \<open>missing_node\<close> entry when its source
  or target node is not found, one \<open>incompatible_types\<close> entry when no output port of its
  source node is type-compatible with any input port of its target node, and nothing
  otherwise. The result is valid exactly when the list is empty, and
  \<^verbatim>\<open>can_execute_workflow\<close> returns that flag.
\<close>

lemma validation_reports_every_rejected_connection:
  "errors (validate_workflow_connections self workflow)
     = concat (map (connection_errors self (get_list (nodes workflow)))
                 (get_list (connections workflow)))
   \<and> (workflow_valid (validate_workflow_connections self workflow)
        \<longleftrightarrow> errors (validate_workflow_connections self workflow) = [])
   \<and> can_execute_workflow self workflow
       = workflow_valid (validate_workflow_connections self workflow)
   \<and> get_workflow_errors self workflow = errors (validate_workflow_connections self workflow)
   \<and> (\<forall>conn \<in> set (get_list (connections workflow)). \<forall>source_node target_node.
         find_node_by_id (get_list (nodes workflow)) (nodeId (source conn)) = Some source_node \<and>
         find_node_by_id (get_list (nodes workflow)) (nodeId (target conn)) = Some target_node \<and>
         \<not> (\<exists>output \<in> set (get_list (outputs source_node)).
             \<exists>input_port \<in> set (get_list (inputs target_node)).
               are_types_compatible (type_validator self) (port_type output) (port_type input_port))
         \<longrightarrow> incompatible_types_error (nodeId (source conn)) (nodeId (target conn))
               (invalid_connections
                  (validate_node_connection (type_validator self) source_node target_node))
               \<in> set (errors (validate_workflow_connections self workflow))
             \<and> \<not> can_execute_workflow self workflow)"
proof -
  let ?ns = "get_list (nodes workflow)" and ?cs = "get_list (connections workflow)"
  let ?r = "validate_workflow_connections self workflow"
  have e: "errors ?r = concat (map (connection_errors self ?ns) ?cs)"
    by (simp add: validate_workflow_connections_def for_connections_errors)
  have v: "workflow_valid ?r \<longleftrightarrow> errors ?r = []"
    unfolding e by (simp add: validate_workflow_connections_def for_connections_valid)
  have x: "can_execute_workflow self workflow = workflow_valid ?r"
    by (simp add: can_execute_workflow_def)
  have g: "get_workflow_errors self workflow = errors ?r"
    by (simp add: get_workflow_errors_def)
  have r: "incompatible_types_error (nodeId (source conn)) (nodeId (target conn))
               (invalid_connections (validate_node_connection (type_validator self) s t))
             \<in> set (errors ?r) \<and> \<not> can_execute_workflow self workflow"
    if "conn \<in> set ?cs"
      and "find_node_by_id ?ns (nodeId (source conn)) = Some s"
      and "find_node_by_id ?ns (nodeId (target conn)) = Some t"
      and "\<not> (\<exists>output \<in> set (get_list (outputs s)). \<exists>input_port \<in> set (get_list (inputs t)).
               are_types_compatible (type_validator self) (port_type output) (port_type input_port))"
    for conn s t
  proof -
    from that(4) have "\<not> can_connect (validate_node_connection (type_validator self) s t)"
      by (simp only: can_connect_iff not_False_eq_True)
    with that(2,3) have "connection_errors self ?ns conn =
        [incompatible_types_error (nodeId (source conn)) (nodeId (target conn))
           (invalid_connections (validate_node_connection (type_validator self) s t))]"
      by (simp add: connection_errors_def)
    with that(1) have m: "incompatible_types_error (nodeId (source conn)) (nodeId (target conn))
           (invalid_connections (validate_node_connection (type_validator self) s t))
         \<in> set (errors ?r)"
      unfolding e by force
    then have "errors ?r \<noteq> []" by auto
    with m v x show ?thesis by simp
  qed
  from e v x g r show ?thesis by blast
qed



section \<open>Type inference\<close>

lemmas isinstance_defs =
  isinstance_str_def isinstance_bool_def isinstance_int_def isinstance_float_def
  isinstance_list_def isinstance_tuple_def isinstance_set_def isinstance_dict_def

text \<open>
  C10: the bool test comes before the int test, so every bool is inferred as \<open>boolean\<close> and
  never as \<open>integer\<close>, although it is an instance of \<^verbatim>\<open>int\<close>; every int that is not a bool
  is inferred as \<open>integer\<close>; and every value that is not \<^verbatim>\<open>None\<close> and matches none of the
  tested classes is inferred as \<open>object\<close>.
\<close>

theorem C10_bool_checked_before_int: 
  "infer_type_from_value (PBool b) = ''boolean'' \<and>
   infer_type_from_value (PBool b) \<noteq> ''integer'' \<and>
   isinstance_int (PBool b) \<and>
   infer_type_from_value (PInt i) = ''integer'' \<and>
   (v \<noteq> PNone \<and> \<not> isinstance_bool v \<and> \<not> isinstance_int v \<and> \<not> isinstance_float v \<and>
    \<not> isinstance_str v \<and> \<not> isinstance_list v \<and> \<not> isinstance_tuple v \<and>
    \<not> isinstance_set v \<and> \<not> isinstance_dict v
      \<longrightarrow> infer_type_from_value v = ''object'')"
  by (simp add: infer_type_from_value_def isinstance_defs)

theorem C10_bool_checked_before_int_witness:
  "infer_type_from_value (PBool True) = ''boolean'' \<and>
   infer_type_from_value (PInt 1) = ''integer'' \<and>
   infer_type_from_value (PObject ''DataFrame'') = ''object''"
  using C10_bool_checked_before_int [of True 1 "PObject ''DataFrame''"]
  by (simp add: isinstance_defs)

section \<open>JSON reads back what it wrote for JSON-native values\<close>














lemma within_int_max_str_digits_small:
  "\<bar>i\<bar> < 10 \<Longrightarrow> within_int_max_str_digits i"
  unfolding within_int_max_str_digits_def by (subst str_of_nat.simps) simp




section \<open>The codec\<close>




text \<open>
  C5, as the code has it. \<^verbatim>\<open>n8n_to_python\<close> never reads \<^verbatim>\<open>expected_type\<close>: its
  result is the same for every expected type, and it has no failure of its own (no
  TypeMismatch, no CodecError). For every wire value whose tag is neither \<open>json\<close> nor
  \<open>pickle\<close> (the tag \<open>simple\<close>, an unknown tag, no tag) it returns the entry \<^verbatim>\<open>value\<close>
  unchanged, \<^verbatim>\<open>None\<close> when there is none; for the tags \<open>json\<close> and \<open>pickle\<close> its result,
  a value or a failure, is that of \<^verbatim>\<open>json.loads\<close> and \<^verbatim>\<open>pickle.loads\<close>.
\<close>

theorem C5_decode_ignores_expected_type:
  "n8n_to_python n8n_data expected_type = n8n_to_python n8n_data other_type \<and>
   (dict_get n8n_data ''type'' PNone \<noteq> PStr ''json'' \<and>
    dict_get n8n_data ''type'' PNone \<noteq> PStr ''pickle''
      \<longrightarrow> n8n_to_python n8n_data expected_type = Inr (dict_get n8n_data ''value'' PNone)) \<and>
   (dict_get n8n_data ''type'' PNone = PStr ''json''
      \<longrightarrow> n8n_to_python n8n_data expected_type = json_loads (dict_get n8n_data ''value'' PNone)) \<and>
   (dict_get n8n_data ''type'' PNone = PStr ''pickle''
      \<longrightarrow> n8n_to_python n8n_data expected_type = pickle_loads (dict_get n8n_data ''value'' PNone))"
  by (simp add: n8n_to_python_def Let_def)

theorem C5_decode_ignores_expected_type_witness:
  "n8n_to_python [(''type'', PStr ''simple''), (''value'', PInt 3)] ''str''
     = n8n_to_python [(''type'', PStr ''simple''), (''value'', PInt 3)] ''int'' \<and>
   n8n_to_python [(''type'', PStr ''simple''), (''value'', PInt 3)] ''str'' = Inr (PInt 3) \<and>
   n8n_to_python [(''type'', PStr ''json''), (''value'', PJsonText (JArr [JInt 3]))] ''list''
     = Inr (PList [PInt 3])"
  using
    C5_decode_ignores_expected_type
      [of "[(''type'', PStr ''simple''), (''value'', PInt 3)]" "''str''" "''int''"]
    C5_decode_ignores_expected_type
      [of "[(''type'', PStr ''json''), (''value'', PJsonText (JArr [JInt 3]))]" "''list''" "''int''"]
  by (simp add: dict_get_def n8n_to_python_def modelled_nesting_depth_def deepest_def)

text \<open>
  C5 as stated fails: a string on the wire decodes without failure when an int is
  expected, although \<open>string\<close> is not compatible with \<open>integer\<close>; and a wire value with
  an unknown tag and no payload, or with no tag, decodes without failure as well.
\<close>

theorem C5_mismatch_and_malformed_accepted_counterexample:
  "n8n_to_python [(''type'', PStr ''simple''), (''value'', PStr ''abc'')] ''int'' = Inr (PStr ''abc'') \<and>
   infer_type_from_value (PStr ''abc'') = ''string'' \<and>
   \<not> are_types_compatible new_TypeValidationService ''string'' ''integer'' \<and>
   n8n_to_python [(''type'', PStr ''bogus'')] ''int'' = Inr PNone \<and>
   n8n_to_python [(''value'', PInt 5)] ''str'' = Inr (PInt 5)"
  using string_integer_incompatible
  by (simp add: n8n_to_python_def dict_get_def infer_type_from_value_def isinstance_defs)

text \<open>
  C6, as the code has it. \<^verbatim>\<open>python_to_n8n\<close> chooses by the runtime class alone, at
  any size: a str, int, float or bool is carried as it is under the tag \<open>simple\<close>; any
  other list or dict is written by \<^verbatim>\<open>json.dumps\<close> under the tag \<open>json\<close>; every other
  value (\<^verbatim>\<open>None\<close>, tuples, sets, bytes, instances of other classes) is written by
  \<^verbatim>\<open>pickle.dumps\<close> under the tag \<open>pickle\<close>. A wire value has the two keys \<^verbatim>\<open>type\<close> and
  \<^verbatim>\<open>value\<close> and no other, so it is never a reference descriptor.
\<close>

theorem C6_strategy_by_runtime_type_only:
  "(is_simple v \<longrightarrow> python_to_n8n v = Inr [(''type'', PStr ''simple''), (''value'', v)]) \<and>
   (\<not> is_simple v \<and> (isinstance_list v \<or> isinstance_dict v) \<longrightarrow>
      python_to_n8n v =
        (case json_dumps v of Inl e \<Rightarrow> Inl e
         | Inr text \<Rightarrow> Inr [(''type'', PStr ''json''), (''value'', text)])) \<and>
   (\<not> is_simple v \<and> \<not> isinstance_list v \<and> \<not> isinstance_dict v \<longrightarrow>
      python_to_n8n v =
        (case pickle_dumps v of Inl e \<Rightarrow> Inl e
         | Inr bytes \<Rightarrow> Inr [(''type'', PStr ''pickle''), (''value'', bytes)])) \<and>
   (python_to_n8n v = Inr w \<longrightarrow> map fst w = [''type'', ''value''])"
  by (auto simp: python_to_n8n_def is_simple_def split: sum.splits if_splits)

theorem C6_strategy_by_runtime_type_only_witness:
  "python_to_n8n (PBool True) = Inr [(''type'', PStr ''simple''), (''value'', PBool True)] \<and>
   python_to_n8n (PList [PInt 1]) = Inr [(''type'', PStr ''json''), (''value'', PJsonText (JArr [JInt 1]))] \<and>
   python_to_n8n PNone = Inr [(''type'', PStr ''pickle''), (''value'', PPickle PNone)]"
  using C6_strategy_by_runtime_type_only [of "PBool True"]
    C6_strategy_by_runtime_type_only [of "PList [PInt 1]"]
    C6_strategy_by_runtime_type_only [of PNone]
  by (simp add: is_simple_def isinstance_defs json_dumps_def json_array_def pickle_dumps_def
        within_int_max_str_digits_small modelled_nesting_depth_def deepest_def)

text \<open>
  C6 as stated fails on size: a string of a million characters is carried in the wire
  value itself, under the tag \<open>simple\<close>; nothing is spilled and there is no reference
  descriptor.
\<close>

theorem C6_large_value_kept_inline_counterexample:
  "python_to_n8n (PStr (replicate 1000000 CHR ''x''))
     = Inr [(''type'', PStr ''simple''), (''value'', PStr (replicate 1000000 CHR ''x''))] \<and>
   length (replicate 1000000 CHR ''x'') = 1000000"
  by (simp add: python_to_n8n_def isinstance_defs)

end
